theory Spec2Isabelle
  imports Complex_Main
begin

section \<open>JavaScript numbers and arrays\<close>

text \<open>
  The indicator engine of \<^verbatim>\<open>server/technical-analysis.ts\<close> computes with JavaScript
  numbers. A finite number is modelled as an exact real (rounding, overflow and the sign
  of zero are not modelled); the values that the engine can produce besides finite
  numbers are kept apart: the two infinities and \<open>NaN\<close> (division by zero, arithmetic on
  \<open>undefined\<close>) and \<open>undefined\<close> itself (reading an array out of range). Arithmetic on
  candle fields, which are finite, is written on reals; every operation one of whose
  operands may be a non-finite value is one of the \<open>js_\<close> operations below.
  The only exception the engine can raise is the \<open>TypeError\<close> of \<open>reduce\<close> on an empty
  array without initial value, and of reading a property of \<open>undefined\<close>.
\<close>

datatype jsval = Num real | PosInf | NegInf | NaN | Undefined

datatype error = TypeError

fun js_add :: "jsval \<Rightarrow> jsval \<Rightarrow> jsval" where
  "js_add Undefined _ = NaN"
| "js_add _ Undefined = NaN"
| "js_add NaN _ = NaN"
| "js_add _ NaN = NaN"
| "js_add (Num a) (Num b) = Num (a + b)"
| "js_add PosInf NegInf = NaN"
| "js_add NegInf PosInf = NaN"
| "js_add PosInf _ = PosInf"
| "js_add _ PosInf = PosInf"
| "js_add NegInf _ = NegInf"
| "js_add _ NegInf = NegInf"

fun js_sub :: "jsval \<Rightarrow> jsval \<Rightarrow> jsval" where
  "js_sub Undefined _ = NaN"
| "js_sub _ Undefined = NaN"
| "js_sub NaN _ = NaN"
| "js_sub _ NaN = NaN"
| "js_sub (Num a) (Num b) = Num (a - b)"
| "js_sub PosInf PosInf = NaN"
| "js_sub NegInf NegInf = NaN"
| "js_sub PosInf _ = PosInf"
| "js_sub NegInf _ = NegInf"
| "js_sub _ PosInf = NegInf"
| "js_sub _ NegInf = PosInf"

fun js_mul :: "jsval \<Rightarrow> jsval \<Rightarrow> jsval" where
  "js_mul Undefined _ = NaN"
| "js_mul _ Undefined = NaN"
| "js_mul NaN _ = NaN"
| "js_mul _ NaN = NaN"
| "js_mul (Num a) (Num b) = Num (a * b)"
| "js_mul (Num a) PosInf = (if a = 0 then NaN else if 0 < a then PosInf else NegInf)"
| "js_mul (Num a) NegInf = (if a = 0 then NaN else if 0 < a then NegInf else PosInf)"
| "js_mul PosInf (Num b) = (if b = 0 then NaN else if 0 < b then PosInf else NegInf)"
| "js_mul NegInf (Num b) = (if b = 0 then NaN else if 0 < b then NegInf else PosInf)"
| "js_mul PosInf PosInf = PosInf"
| "js_mul PosInf NegInf = NegInf"
| "js_mul NegInf PosInf = NegInf"
| "js_mul NegInf NegInf = PosInf"

fun js_div :: "jsval \<Rightarrow> jsval \<Rightarrow> jsval" where
  "js_div Undefined _ = NaN"
| "js_div _ Undefined = NaN"
| "js_div NaN _ = NaN"
| "js_div _ NaN = NaN"
| "js_div (Num a) (Num b) =
     (if b \<noteq> 0 then Num (a / b) else if a = 0 then NaN else if 0 < a then PosInf else NegInf)"
| "js_div (Num a) _ = Num 0"
| "js_div PosInf (Num b) = (if 0 \<le> b then PosInf else NegInf)"
| "js_div NegInf (Num b) = (if 0 \<le> b then NegInf else PosInf)"
| "js_div _ _ = NaN"





text \<open>Strict equality \<^verbatim>\<open>===\<close> on these values: \<open>NaN\<close> equals nothing, itself included.\<close>

fun js_strict_eq :: "jsval \<Rightarrow> jsval \<Rightarrow> bool" where
  "js_strict_eq (Num a) (Num b) = (a = b)"
| "js_strict_eq PosInf PosInf = True"
| "js_strict_eq NegInf NegInf = True"
| "js_strict_eq Undefined Undefined = True"
| "js_strict_eq _ _ = False"

text \<open>
  \<^verbatim>\<open>Math.max(...xs)\<close> and \<^verbatim>\<open>Math.min(...xs)\<close> over an array of finite numbers: the
  empty array gives \<open>-Infinity\<close> and \<open>Infinity\<close>.
\<close>

definition Math_max :: "real list \<Rightarrow> jsval" where
  "Math_max xs = (case xs of [] \<Rightarrow> NegInf | x # rest \<Rightarrow> Num (fold max rest x))"

definition Math_min :: "real list \<Rightarrow> jsval" where
  "Math_min xs = (case xs of [] \<Rightarrow> PosInf | x # rest \<Rightarrow> Num (fold min rest x))"

text \<open>
  \<^verbatim>\<open>xs.reduce(f)\<close> without initial value folds from the left, starting with the first
  element, and raises \<open>TypeError\<close> on the empty array.
\<close>

definition reduce :: "('a \<Rightarrow> 'a \<Rightarrow> 'a) \<Rightarrow> 'a list \<Rightarrow> error + 'a" where
  "reduce f xs = (case xs of [] \<Rightarrow> Inl TypeError | x # rest \<Rightarrow> Inr (foldl f x rest))"

text \<open>
  \<^verbatim>\<open>xs.slice(-p)\<close> for a count \<open>p\<close>: the last \<open>p\<close> elements, all of them when there are
  fewer; \<^verbatim>\<open>xs.slice(-0)\<close> is \<^verbatim>\<open>xs.slice(0)\<close>, the whole array.
  \<^verbatim>\<open>xs.slice(a, b)\<close> for indices \<open>0 \<le> a\<close>, \<open>0 \<le> b\<close>: the elements from \<open>a\<close> up to, not
  including, \<open>b\<close>.
\<close>

definition slice_last :: "nat \<Rightarrow> 'a list \<Rightarrow> 'a list" where
  "slice_last p xs = (if p = 0 then xs else drop (length xs - p) xs)"

definition slice :: "nat \<Rightarrow> nat \<Rightarrow> 'a list \<Rightarrow> 'a list" where
  "slice a b xs = take (b - a) (drop a xs)"

section \<open>Candles\<close>

record Candle =
  timestamp :: real
  open' :: real
  high :: real
  low :: real
  close :: real
  volume :: real

section \<open>Series utilities\<close>

text \<open>
  \<^verbatim>\<open>calculateEMA(prices, period)\<close>. On an array shorter than the period it returns
  \<^verbatim>\<open>prices[prices.length - 1]\<close>, which is \<open>undefined\<close> for the empty array.
\<close>

definition calculateEMA :: "jsval list \<Rightarrow> nat \<Rightarrow> error + jsval" where
  "calculateEMA prices period =
    (if length prices < period then
       Inr (if prices = [] then Undefined else prices ! (length prices - 1))
     else
       let multiplier = 2 / (real period + 1) in
       case reduce js_add (slice_last period prices) of
         Inl e \<Rightarrow> Inl e
       | Inr s \<Rightarrow>
           Inr (fold (\<lambda>i ema. js_add (js_mul (js_sub (prices ! i) ema) (Num multiplier)) ema)
                  [length prices - period ..< length prices]
                  (js_div s (Num (real period)))))"

definition calculateSMA :: "jsval list \<Rightarrow> nat \<Rightarrow> error + jsval" where
  "calculateSMA prices period =
    (if length prices < period then
       (case reduce js_add prices of
          Inl e \<Rightarrow> Inl e
        | Inr s \<Rightarrow> Inr (js_div s (Num (real (length prices)))))
     else
       (case reduce js_add (slice_last period prices) of
          Inl e \<Rightarrow> Inl e
        | Inr s \<Rightarrow> Inr (js_div s (Num (real period)))))"

section \<open>Momentum oscillators\<close>



record StochasticResult =
  stoch_k :: jsval
  stoch_d :: jsval

text \<open>
  \<^verbatim>\<open>calculateStochastic(candles, kPeriod = 14, dPeriod = 3)\<close>.
  \<^verbatim>\<open>Math.max(0, n - kPeriod - dPeriod)\<close> and \<^verbatim>\<open>Math.max(0, i - kPeriod + 1)\<close> are the
  truncating subtractions of \<open>nat\<close>. Reading \<^verbatim>\<open>candles[candles.length - 1].close\<close> on
  the empty array (possible only with \<open>kPeriod = 0\<close>) raises. \<open>stoch_step\<close> is the body
  of the loop that collects \<^verbatim>\<open>kValues\<close>.
\<close>

definition stoch_step :: "Candle list \<Rightarrow> nat \<Rightarrow> nat \<Rightarrow> jsval list \<Rightarrow> jsval list" where
  "stoch_step candles kPeriod i kValues =
    (let window = slice (i + 1 - kPeriod) (i + 1) candles
     in if length window \<ge> kPeriod then
          let close_i = close (candles ! i);
              high_w = Math_max (map high window);
              low_w = Math_min (map low window)
          in if \<not> js_strict_eq high_w low_w
             then kValues @
                  [js_mul (js_div (js_sub (Num close_i) low_w) (js_sub high_w low_w)) (Num 100)]
             else kValues
        else kValues)"

definition calculateStochastic :: "Candle list \<Rightarrow> nat \<Rightarrow> nat \<Rightarrow> error + StochasticResult" where
  "calculateStochastic candles kPeriod dPeriod =
    (if length candles < kPeriod then Inr \<lparr>stoch_k = Num 50, stoch_d = Num 50\<rparr>
     else if candles = [] then Inl TypeError
     else
       let recentCandles = slice_last kPeriod candles;
           currentClose = close (candles ! (length candles - 1));
           highestHigh = Math_max (map high recentCandles);
           lowestLow = Math_min (map low recentCandles);
           k = (if \<not> js_strict_eq highestHigh lowestLow
                then js_mul (js_div (js_sub (Num currentClose) lowestLow)
                                    (js_sub highestHigh lowestLow)) (Num 100)
                else Num 50);
           kValues = fold (stoch_step candles kPeriod)
                       [length candles - kPeriod - dPeriod ..< length candles] []
       in if length kValues \<ge> dPeriod then
            (case reduce js_add (slice_last dPeriod kValues) of
               Inl e \<Rightarrow> Inl e
             | Inr s \<Rightarrow> Inr \<lparr>stoch_k = k, stoch_d = js_div s (Num (real dPeriod))\<rparr>)
          else Inr \<lparr>stoch_k = k, stoch_d = k\<rparr>)"

text \<open>\<^verbatim>\<open>calculateMomentum(candles, period = 10)\<close> and \<^verbatim>\<open>calculateROC(candles, period = 12)\<close>.\<close>

definition calculateMomentum :: "Candle list \<Rightarrow> nat \<Rightarrow> jsval" where
  "calculateMomentum candles period =
    (if length candles < period + 1 then Num 0
     else
       let currentPrice = close (candles ! (length candles - 1));
           pastPrice = close (candles ! (length candles - period - 1))
       in js_mul (js_div (Num (currentPrice - pastPrice)) (Num pastPrice)) (Num 100))"

definition calculateROC :: "Candle list \<Rightarrow> nat \<Rightarrow> jsval" where
  "calculateROC candles period =
    (if length candles < period + 1 then Num 0
     else
       let currentPrice = close (candles ! (length candles - 1));
           pastPrice = close (candles ! (length candles - period - 1))
       in js_mul (js_div (Num (currentPrice - pastPrice)) (Num pastPrice)) (Num 100))"

section \<open>Trend indicators\<close>

record MACDResult =
  macd_value :: jsval
  macd_signal :: jsval
  macd_histogram :: jsval

text \<open>The loop of \<^verbatim>\<open>calculateMACD\<close> that rebuilds the MACD line over the growing prefixes.\<close>

fun macd_history :: "jsval list \<Rightarrow> nat list \<Rightarrow> jsval list \<Rightarrow> error + jsval list" where
  "macd_history prices [] macdValues = Inr macdValues"
| "macd_history prices (i # rest) macdValues =
     (let prefix = slice 0 i prices in
      case calculateEMA prefix 12 of
        Inl e \<Rightarrow> Inl e
      | Inr e12 \<Rightarrow>
          (case calculateEMA prefix 26 of
             Inl e \<Rightarrow> Inl e
           | Inr e26 \<Rightarrow> macd_history prices rest (macdValues @ [js_sub e12 e26])))"

definition calculateMACD :: "Candle list \<Rightarrow> error + MACDResult" where
  "calculateMACD candles =
    (let prices = map (\<lambda>c. Num (close c)) candles in
     case calculateEMA prices 12 of
       Inl e \<Rightarrow> Inl e
     | Inr ema12 \<Rightarrow>
         (case calculateEMA prices 26 of
            Inl e \<Rightarrow> Inl e
          | Inr ema26 \<Rightarrow>
              let macdValue = js_sub ema12 ema26 in
              (case macd_history prices [26 ..< length prices + 1] [] of
                 Inl e \<Rightarrow> Inl e
               | Inr macdValues \<Rightarrow>
                   (case calculateEMA macdValues 9 of
                      Inl e \<Rightarrow> Inl e
                    | Inr signal \<Rightarrow>
                        Inr \<lparr>macd_value = macdValue, macd_signal = signal,
                             macd_histogram = js_sub macdValue signal\<rparr>))))"







section \<open>Volatility indicators\<close>





section \<open>Volume indicators\<close>

text \<open>
  \<^verbatim>\<open>calculateOBV\<close> only adds and subtracts candle volumes, so its result is a finite
  number. \<open>obv_step\<close> is the body of its loop.
\<close>

definition obv_step :: "Candle list \<Rightarrow> nat \<Rightarrow> real \<Rightarrow> real" where
  "obv_step candles i obv =
    (if close (candles ! i) > close (candles ! (i - 1)) then obv + volume (candles ! i)
     else if close (candles ! i) < close (candles ! (i - 1)) then obv - volume (candles ! i)
     else obv)"

definition calculateOBV :: "Candle list \<Rightarrow> real" where
  "calculateOBV candles =
    (if length candles < 2 then 0
     else fold (obv_step candles) [1 ..< length candles] 0)"

definition calculateVolumeIndicator :: "Candle list \<Rightarrow> error + jsval" where
  "calculateVolumeIndicator candles =
    (if length candles < 10 then Inr (Num 0)
     else
       let recentVolumes = map (\<lambda>c. Num (volume c)) (slice_last 5 candles);
           olderVolumes =
             map (\<lambda>c. Num (volume c)) (slice (length candles - 10) (length candles - 5) candles)
       in
       case reduce js_add recentVolumes of
         Inl e \<Rightarrow> Inl e
       | Inr rs \<Rightarrow>
           (case reduce js_add olderVolumes of
              Inl e \<Rightarrow> Inl e
            | Inr os \<Rightarrow>
                let recentAvg = js_div rs (Num (real (length recentVolumes)));
                    olderAvg = js_div os (Num (real (length olderVolumes)))
                in Inr (js_mul (js_sub (js_div recentAvg olderAvg) (Num 1)) (Num 100))))"

section \<open>Support and resistance\<close>

record SupportResistance =
  sr_nearestSupport :: real
  sr_nearestResistance :: real
  sr_distanceToSupport :: jsval
  sr_distanceToResistance :: jsval

text \<open>
  The pivot scan of \<^verbatim>\<open>findSupportResistance\<close>. The test \<^verbatim>\<open>c !== center\<close> compares
  object identities: it is false at the centre's own index, and wherever else it is
  false the candle is the centre itself, with the centre's high and low, so that the
  comparison it skips is true. It is modelled as the test that the index differs from
  the centre's.
\<close>

definition pivotPoints :: "Candle list \<Rightarrow> real list" where
  "pivotPoints candles =
    fold (\<lambda>i pivots.
            let center = candles ! i;
                isHigh = list_all (\<lambda>j. if j \<noteq> i then high center \<ge> high (candles ! j) else True)
                           [i - 5 ..< i + 5 + 1];
                isLow = list_all (\<lambda>j. if j \<noteq> i then low center \<le> low (candles ! j) else True)
                          [i - 5 ..< i + 5 + 1]
            in (pivots @ (if isHigh then [high center] else []))
                       @ (if isLow then [low center] else []))
      [5 ..< length candles - 5] []"

text \<open>
  \<^verbatim>\<open>findSupportResistance(candles, currentPrice)\<close>, for a current price that is a
  finite number. \<^verbatim>\<open>sort((a, b) => b - a)\<close> orders finite numbers descending and
  \<^verbatim>\<open>sort((a, b) => a - b)\<close> ascending.
\<close>

definition findSupportResistance :: "Candle list \<Rightarrow> real \<Rightarrow> SupportResistance" where
  "findSupportResistance candles currentPrice =
    (if length candles < 20 then
       \<lparr>sr_nearestSupport = currentPrice * 0.98,
        sr_nearestResistance = currentPrice * 1.02,
        sr_distanceToSupport = Num 2,
        sr_distanceToResistance = Num 2\<rparr>
     else
       let pivots = pivotPoints candles;
           supports = rev (sort (filter (\<lambda>p. p < currentPrice) pivots));
           resistances = sort (filter (\<lambda>p. p > currentPrice) pivots);
           nearestSupport = (if length supports > 0 then supports ! 0 else currentPrice * 0.97);
           nearestResistance =
             (if length resistances > 0 then resistances ! 0 else currentPrice * 1.03);
           distanceToSupport =
             js_mul (js_div (Num (currentPrice - nearestSupport)) (Num currentPrice)) (Num 100);
           distanceToResistance =
             js_mul (js_div (Num (nearestResistance - currentPrice)) (Num currentPrice)) (Num 100)
       in \<lparr>sr_nearestSupport = nearestSupport,
           sr_nearestResistance = nearestResistance,
           sr_distanceToSupport = distanceToSupport,
           sr_distanceToResistance = distanceToResistance\<rparr>)"

section \<open>Composite classifier\<close>



section \<open>Notions used to state the properties\<close>


text \<open>
  The price-mirrored candle of the symmetry law of OBV: the close is reflected about the
  constant \<open>m\<close>, everything else is unchanged.
\<close>

definition price_mirror :: "real \<Rightarrow> Candle \<Rightarrow> Candle" where
  "price_mirror m c = c\<lparr>close := 2 * m - close c\<rparr>"

text \<open>
  The stochastic oscillator in the words of the specification. The window of \<open>kPeriod\<close>
  candles ending at index \<open>i\<close>; its range is zero when its highest high equals its
  lowest low; \<open>%K\<close> at \<open>i\<close> is the position of the close at \<open>i\<close> in that range, in
  percent, and 50 when the range is zero.
\<close>

definition window_ending :: "Candle list \<Rightarrow> nat \<Rightarrow> nat \<Rightarrow> Candle list" where
  "window_ending candles kPeriod i = take kPeriod (drop (i + 1 - kPeriod) candles)"

definition zero_range :: "Candle list \<Rightarrow> nat \<Rightarrow> nat \<Rightarrow> bool" where
  "zero_range candles kPeriod i =
    (Max (set (map high (window_ending candles kPeriod i)))
       = Min (set (map low (window_ending candles kPeriod i))))"

definition percentK :: "Candle list \<Rightarrow> nat \<Rightarrow> nat \<Rightarrow> real" where
  "percentK candles kPeriod i =
    (let highestHigh = Max (set (map high (window_ending candles kPeriod i)));
         lowestLow = Min (set (map low (window_ending candles kPeriod i)))
     in if highestHigh = lowestLow then 50
        else (close (candles ! i) - lowestLow) / (highestHigh - lowestLow) * 100)"

text \<open>
  \<open>%D\<close> as C4 states it: the mean of the most recent \<open>dPeriod\<close> values of \<open>%K\<close> over
  the full windows, a zero-range window contributing 50, and \<open>%K\<close> of the last window
  when there are fewer than \<open>dPeriod\<close> values.
\<close>

definition percentD_claimed :: "Candle list \<Rightarrow> nat \<Rightarrow> nat \<Rightarrow> real" where
  "percentD_claimed candles kPeriod dPeriod =
    (let ks = map (percentK candles kPeriod) [kPeriod - 1 ..< length candles]
     in if length ks \<ge> dPeriod then sum_list (slice_last dPeriod ks) / real dPeriod
        else percentK candles kPeriod (length candles - 1))"

text \<open>
  \<open>%D\<close> over the windows that the code samples: the full windows ending at one of the
  last \<open>kPeriod + dPeriod\<close> candles whose range is not zero.
\<close>

definition percentD_sampled :: "Candle list \<Rightarrow> nat \<Rightarrow> nat \<Rightarrow> real" where
  "percentD_sampled candles kPeriod dPeriod =
    (let ends = filter (\<lambda>i. kPeriod \<le> i + 1 \<and> \<not> zero_range candles kPeriod i)
                  [length candles - kPeriod - dPeriod ..< length candles];
         ks = map (percentK candles kPeriod) ends
     in if length ks \<ge> dPeriod then sum_list (slice_last dPeriod ks) / real dPeriod
        else percentK candles kPeriod (length candles - 1))"



section \<open>Theorems\<close>

lemma calculateEMA_short:
  "length prices < period \<Longrightarrow> prices \<noteq> [] \<Longrightarrow> calculateEMA prices period = Inr (last prices)"
  by (simp add: calculateEMA_def last_conv_nth)

text \<open>
  C10. For every non-empty price sequence shorter than the period, \<^verbatim>\<open>calculateEMA\<close>
  returns the most recent price unchanged, the last element of the sequence: no
  smoothing is applied and no shorter-window average is taken.
\<close>

theorem C10_calculateEMA_short_input:
  assumes "prices \<noteq> []" and "length prices < period"
  shows "calculateEMA prices period = Inr (last prices)"
  using assms by (simp add: calculateEMA_short)

theorem C10_calculateEMA_short_input_witness:
  "[Num 10, Num 11, Num 12] \<noteq> [] \<and> length [Num 10, Num 11, Num 12] < (12::nat)
   \<and> calculateEMA [Num 10, Num 11, Num 12] 12 = Inr (Num 12)"
  using C10_calculateEMA_short_input [of "[Num 10, Num 11, Num 12]" 12] by simp

subsection \<open>RSI\<close>









subsection \<open>Momentum and rate of change\<close>

text \<open>
  C9. For every candle sequence and every period \<open>p\<close> (in particular every \<open>p \<ge> 1\<close>),
  \<^verbatim>\<open>calculateMomentum(candles, p)\<close> equals \<^verbatim>\<open>calculateROC(candles, p)\<close>: both return 0
  on insufficient history, fewer than \<open>p + 1\<close> candles, and otherwise
  \<open>(close_now - close_past) / close_past * 100\<close> for the close \<open>p\<close> candles back.
\<close>

theorem C9_momentum_equals_roc:
  "calculateMomentum candles p = calculateROC candles p
   \<and> (length candles < p + 1 \<longrightarrow> calculateROC candles p = Num 0)
   \<and> (p + 1 \<le> length candles \<and> close (candles ! (length candles - p - 1)) \<noteq> 0 \<longrightarrow>
        calculateROC candles p =
          Num ((close (candles ! (length candles - 1)) - close (candles ! (length candles - p - 1)))
                / close (candles ! (length candles - p - 1)) * 100))"
  by (simp add: calculateMomentum_def calculateROC_def Let_def)

theorem C9_momentum_equals_roc_witness:
  "(2::nat) + 1 \<le> length (map (\<lambda>p. \<lparr>timestamp = 0, open' = p, high = p, low = p, close = p, volume = 1000\<rparr>)
                      [100, 101, 110])
   \<and> close (map (\<lambda>p. \<lparr>timestamp = 0, open' = p, high = p, low = p, close = p, volume = 1000\<rparr>)
                      [100, 101, 110] ! (3 - 2 - 1)) \<noteq> 0
   \<and> calculateMomentum (map (\<lambda>p. \<lparr>timestamp = 0, open' = p, high = p, low = p, close = p, volume = 1000\<rparr>)
                      [100, 101, 110]) 2 = Num 10
   \<and> calculateROC (map (\<lambda>p. \<lparr>timestamp = 0, open' = p, high = p, low = p, close = p, volume = 1000\<rparr>)
                      [100, 101, 110]) 2 = Num 10
   \<and> calculateROC (map (\<lambda>p. \<lparr>timestamp = 0, open' = p, high = p, low = p, close = p, volume = 1000\<rparr>)
                      [100, 101, 110]) 12 = Num 0"
  using C9_momentum_equals_roc
          [of "map (\<lambda>p. \<lparr>timestamp = 0, open' = p, high = p, low = p, close = p, volume = 1000\<rparr>)
                 [100, 101, 110]" 2]
        C9_momentum_equals_roc
          [of "map (\<lambda>p. \<lparr>timestamp = 0, open' = p, high = p, low = p, close = p, volume = 1000\<rparr>)
                 [100, 101, 110]" 12]
  by simp

subsection \<open>On-balance volume\<close>

lemma calculateOBV_fold: "calculateOBV candles = fold (obv_step candles) [1 ..< length candles] 0"
  by (simp add: calculateOBV_def)

lemma obv_step_append:
  "1 \<le> i \<Longrightarrow> i < length xs \<Longrightarrow> obv_step (xs @ ys) i a = obv_step xs i a"
proof -
  assume "1 \<le> i" "i < length xs"
  then have "i - 1 < length xs" by simp
  with \<open>i < length xs\<close> show ?thesis by (simp add: obv_step_def nth_append)
qed

lemma calculateOBV_snoc:
  assumes "candles \<noteq> []"
  shows "calculateOBV (candles @ [c]) =
         calculateOBV candles +
           (if close c > close (last candles) then volume c
            else if close c < close (last candles) then - volume c else 0)"
proof -
  have n: "1 \<le> length candles" using assms by (cases candles) simp_all
  have "fold (obv_step (candles @ [c])) [1 ..< length candles] 0
        = fold (obv_step candles) [1 ..< length candles] 0"
    by (rule fold_cong) (auto simp: obv_step_append)
  moreover have "[1 ..< length (candles @ [c])] = [1 ..< length candles] @ [length candles]"
    using n by simp
  moreover have "(candles @ [c]) ! (length candles - 1) = last candles"
    using assms by (simp add: nth_append last_conv_nth)
  ultimately show ?thesis
    by (simp add: calculateOBV_fold obv_step_def)
qed

lemma calculateOBV_append_mono:
  assumes "sorted (map close (candles @ [c]))" "0 \<le> volume c"
  shows "calculateOBV candles \<le> calculateOBV (candles @ [c])"
proof (cases "candles = []")
  case True
  then show ?thesis by (simp add: calculateOBV_def)
next
  case False
  then have "last candles \<in> set candles" by simp
  with assms(1) have "close (last candles) \<le> close c"
    by (auto simp: sorted_append)
  with assms(2) False show ?thesis by (simp add: calculateOBV_snoc)
qed

lemma calculateOBV_nonneg:
  "sorted (map close candles) \<Longrightarrow> \<forall>c\<in>set candles. 0 \<le> volume c \<Longrightarrow> 0 \<le> calculateOBV candles"
proof (induction candles rule: rev_induct)
  case Nil
  then show ?case by (simp add: calculateOBV_def)
next
  case (snoc c candles)
  from snoc.prems have "sorted (map close candles)" by (simp add: sorted_append)
  with snoc have "0 \<le> calculateOBV candles" by simp
  also have "\<dots> \<le> calculateOBV (candles @ [c])"
    using snoc.prems by (intro calculateOBV_append_mono) simp_all
  finally show ?case .
qed

lemma price_mirror_simps:
  "close (price_mirror m c) = 2 * m - close c" "volume (price_mirror m c) = volume c"
  by (simp_all add: price_mirror_def)

lemma calculateOBV_mirror: "calculateOBV (map (price_mirror m) candles) = - calculateOBV candles"
proof (induction candles rule: rev_induct)
  case Nil
  then show ?case by (simp add: calculateOBV_def)
next
  case (snoc c candles)
  show ?case
  proof (cases "candles = []")
    case True
    then show ?thesis by (simp add: calculateOBV_def)
  next
    case False
    then have "map (price_mirror m) candles \<noteq> []" by simp
    from calculateOBV_snoc [OF this, of "price_mirror m c"] calculateOBV_snoc [OF False, of c]
      snoc.IH False
    show ?thesis by (simp add: last_map price_mirror_simps)
  qed
qed

lemma sorted_take_closes:
  "sorted (map close candles) \<Longrightarrow> sorted (map close (take k candles))"
  by (metis sorted_wrt_take take_map)

text \<open>
  C7, as the code has it. For every candle sequence whose closes are non-decreasing and
  whose volumes are non-negative, OBV is non-negative and every step of OBV along the
  sequence is non-negative: OBV of the first \<open>k + 1\<close> candles is at least OBV of the first
  \<open>k\<close>. For every candle sequence, OBV of the price-mirrored sequence (closes reflected
  about a constant, volumes unchanged) is the exact negative of OBV of the sequence.
\<close>

theorem C7_calculateOBV_monotone_and_mirror:
  "(sorted (map close candles) \<and> (\<forall>c\<in>set candles. 0 \<le> volume c) \<longrightarrow>
      0 \<le> calculateOBV candles
      \<and> (\<forall>k<length candles. calculateOBV (take k candles) \<le> calculateOBV (take (Suc k) candles)))
   \<and> calculateOBV (map (price_mirror m) candles) = - calculateOBV candles"
proof -
  have "calculateOBV (take k candles) \<le> calculateOBV (take (Suc k) candles)"
    if s: "sorted (map close candles)" and v: "\<forall>c\<in>set candles. 0 \<le> volume c"
      and k: "k < length candles" for k
  proof -
    have eq: "take (Suc k) candles = take k candles @ [candles ! k]"
      using k by (simp add: take_Suc_conv_app_nth)
    have "sorted (map close (take (Suc k) candles))" using s by (rule sorted_take_closes)
    moreover have "0 \<le> volume (candles ! k)" using v k by simp
    ultimately show ?thesis unfolding eq by (intro calculateOBV_append_mono)
  qed
  then show ?thesis
    using calculateOBV_nonneg [of candles] calculateOBV_mirror [of m candles] by blast
qed

theorem C7_calculateOBV_monotone_and_mirror_witness:
  "sorted (map close [\<lparr>timestamp = 0, open' = 1, high = 1, low = 1, close = 1, volume = 7\<rparr>,
                      \<lparr>timestamp = 1, open' = 2, high = 2, low = 2, close = 2, volume = 5\<rparr>])
   \<and> 0 \<le> volume \<lparr>timestamp = 0, open' = 1, high = 1, low = 1, close = 1, volume = 7\<rparr>
   \<and> 0 \<le> volume \<lparr>timestamp = 1, open' = 2, high = 2, low = 2, close = 2, volume = 5\<rparr>
   \<and> 0 \<le> calculateOBV [\<lparr>timestamp = 0, open' = 1, high = 1, low = 1, close = 1, volume = 7\<rparr>,
                         \<lparr>timestamp = 1, open' = 2, high = 2, low = 2, close = 2, volume = 5\<rparr>]
   \<and> calculateOBV (map (price_mirror 0)
                      [\<lparr>timestamp = 0, open' = 1, high = 1, low = 1, close = 1, volume = 7\<rparr>,
                       \<lparr>timestamp = 1, open' = 2, high = 2, low = 2, close = 2, volume = 5\<rparr>])
       = - calculateOBV [\<lparr>timestamp = 0, open' = 1, high = 1, low = 1, close = 1, volume = 7\<rparr>,
                         \<lparr>timestamp = 1, open' = 2, high = 2, low = 2, close = 2, volume = 5\<rparr>]"
  using C7_calculateOBV_monotone_and_mirror
          [of "[\<lparr>timestamp = 0, open' = 1, high = 1, low = 1, close = 1, volume = 7\<rparr>,
                \<lparr>timestamp = 1, open' = 2, high = 2, low = 2, close = 2, volume = 5\<rparr>]" 0]
  by simp

text \<open>
  C7 as stated fails: the closes 1, 2 are non-decreasing, the second candle has the
  volume \<open>-5\<close>, and OBV is \<open>-5\<close>, below the OBV 0 of the first candle alone.
\<close>

theorem C7_negative_volume_counterexample:
  "sorted (map close [\<lparr>timestamp = 0, open' = 1, high = 1, low = 1, close = 1, volume = 0\<rparr>,
                      \<lparr>timestamp = 1, open' = 2, high = 2, low = 2, close = 2, volume = - 5\<rparr>])
   \<and> calculateOBV [\<lparr>timestamp = 0, open' = 1, high = 1, low = 1, close = 1, volume = 0\<rparr>] = 0
   \<and> calculateOBV [\<lparr>timestamp = 0, open' = 1, high = 1, low = 1, close = 1, volume = 0\<rparr>,
                    \<lparr>timestamp = 1, open' = 2, high = 2, low = 2, close = 2, volume = - 5\<rparr>] = - 5
   \<and> \<not> 0 \<le> calculateOBV [\<lparr>timestamp = 0, open' = 1, high = 1, low = 1, close = 1, volume = 0\<rparr>,
                    \<lparr>timestamp = 1, open' = 2, high = 2, low = 2, close = 2, volume = - 5\<rparr>]"
  by (simp add: calculateOBV_def obv_step_def)

subsection \<open>Support and resistance\<close>

lemma sort_eq_Nil: "(sort xs = []) = (xs = [])"
  by (metis length_sort length_0_conv)

lemma sorted_le_last: "sorted xs \<Longrightarrow> y \<in> set xs \<Longrightarrow> y \<le> last xs"
proof -
  assume s: "sorted xs" and y: "y \<in> set xs"
  then obtain i where i: "i < length xs" "xs ! i = y" by (auto simp: in_set_conv_nth)
  then have "xs \<noteq> []" by auto
  then have "last xs = xs ! (length xs - 1)" by (rule last_conv_nth)
  moreover have "xs ! i \<le> xs ! (length xs - 1)" using s i by (intro sorted_nth_mono) simp_all
  ultimately show ?thesis using i by simp
qed

lemma sorted_hd_le: "sorted xs \<Longrightarrow> y \<in> set xs \<Longrightarrow> hd xs \<le> y"
proof -
  assume s: "sorted xs" and y: "y \<in> set xs"
  then obtain i where i: "i < length xs" "xs ! i = y" by (auto simp: in_set_conv_nth)
  then have "xs \<noteq> []" by auto
  then have "hd xs = xs ! 0" by (rule hd_conv_nth)
  moreover have "xs ! 0 \<le> xs ! i" using s i by (intro sorted_nth_mono) simp_all
  ultimately show ?thesis using i by simp
qed

lemma last_sort_Max: "xs \<noteq> [] \<Longrightarrow> last (sort xs) = Max (set (xs::real list))"
proof -
  assume ne: "xs \<noteq> []"
  then have ne': "sort xs \<noteq> []" by (simp add: sort_eq_Nil)
  have "Max (set (sort xs)) = last (sort xs)"
  proof (rule Max_eqI)
    show "finite (set (sort xs))" by simp
    show "last (sort xs) \<in> set (sort xs)" using ne' by (rule last_in_set)
    fix y assume "y \<in> set (sort xs)"
    then show "y \<le> last (sort xs)" by (intro sorted_le_last) simp_all
  qed
  then show ?thesis by simp
qed

lemma hd_sort_Min: "xs \<noteq> [] \<Longrightarrow> hd (sort xs) = Min (set (xs::real list))"
proof -
  assume ne: "xs \<noteq> []"
  then have ne': "sort xs \<noteq> []" by (simp add: sort_eq_Nil)
  have "Min (set (sort xs)) = hd (sort xs)"
  proof (rule Min_eqI)
    show "finite (set (sort xs))" by simp
    show "hd (sort xs) \<in> set (sort xs)" using ne' by (rule hd_in_set)
    fix y assume "y \<in> set (sort xs)"
    then show "hd (sort xs) \<le> y" by (intro sorted_hd_le) simp_all
  qed
  then show ?thesis by simp
qed

text \<open>
  C8. For every candle sequence with at least 20 candles and every current price such
  that the detected pivots include a value strictly below and a value strictly above
  it, \<^verbatim>\<open>findSupportResistance\<close> returns
  \<open>nearestSupport < currentPrice < nearestResistance\<close>, where the nearest support is the
  largest pivot below the current price and the nearest resistance the smallest pivot
  above it.
\<close>

theorem C8_findSupportResistance_brackets_price:
  assumes "20 \<le> length candles"
    and "\<exists>p\<in>set (pivotPoints candles). p < currentPrice"
    and "\<exists>p\<in>set (pivotPoints candles). currentPrice < p"
  shows "sr_nearestSupport (findSupportResistance candles currentPrice) < currentPrice
       \<and> currentPrice < sr_nearestResistance (findSupportResistance candles currentPrice)
       \<and> sr_nearestSupport (findSupportResistance candles currentPrice)
           = Max {p \<in> set (pivotPoints candles). p < currentPrice}
       \<and> sr_nearestResistance (findSupportResistance candles currentPrice)
           = Min {p \<in> set (pivotPoints candles). currentPrice < p}"
proof -
  let ?S = "filter (\<lambda>p. p < currentPrice) (pivotPoints candles)"
  let ?R = "filter (\<lambda>p. p > currentPrice) (pivotPoints candles)"
  have S: "?S \<noteq> []" using assms(2) by (auto simp: filter_empty_conv)
  have R: "?R \<noteq> []" using assms(3) by (auto simp: filter_empty_conv)
  have sup: "sr_nearestSupport (findSupportResistance candles currentPrice) = Max (set ?S)"
    using assms(1) S
    by (simp add: findSupportResistance_def Let_def sort_eq_Nil hd_conv_nth [symmetric] hd_rev
          last_sort_Max)
  have res: "sr_nearestResistance (findSupportResistance candles currentPrice) = Min (set ?R)"
    using assms(1) R
    by (simp add: findSupportResistance_def Let_def sort_eq_Nil hd_conv_nth [symmetric]
          hd_sort_Min)
  have "Max (set ?S) \<in> set ?S" using S by (metis Max_in List.finite_set set_empty)
  then have 1: "Max (set ?S) < currentPrice" by simp
  have "Min (set ?R) \<in> set ?R" using R by (metis Min_in List.finite_set set_empty)
  then have 2: "currentPrice < Min (set ?R)" by simp
  from sup res 1 2 show ?thesis by simp
qed

theorem C8_findSupportResistance_brackets_price_witness:
  "20 \<le> length (replicate 20 \<lparr>timestamp = 0, open' = 100, high = 110, low = 90, close = 100, volume = 1000\<rparr>)
   \<and> (\<exists>p\<in>set (pivotPoints (replicate 20 \<lparr>timestamp = 0, open' = 100, high = 110, low = 90, close = 100, volume = 1000\<rparr>)). p < 100)
   \<and> (\<exists>p\<in>set (pivotPoints (replicate 20 \<lparr>timestamp = 0, open' = 100, high = 110, low = 90, close = 100, volume = 1000\<rparr>)). 100 < p)
   \<and> sr_nearestSupport (findSupportResistance (replicate 20 \<lparr>timestamp = 0, open' = 100, high = 110, low = 90, close = 100, volume = 1000\<rparr>) 100) < 100
   \<and> 100 < sr_nearestResistance (findSupportResistance (replicate 20 \<lparr>timestamp = 0, open' = 100, high = 110, low = 90, close = 100, volume = 1000\<rparr>) 100)"
proof -
  let ?cs = "replicate 20 \<lparr>timestamp = 0, open' = 100, high = 110, low = 90, close = 100, volume = 1000\<rparr>"
  have h: "20 \<le> length ?cs \<and> (\<exists>p\<in>set (pivotPoints ?cs). p < 100)
           \<and> (\<exists>p\<in>set (pivotPoints ?cs). 100 < p)"
    by code_simp
  with C8_findSupportResistance_brackets_price [of ?cs 100] show ?thesis by blast
qed

subsection \<open>Sums of finite numbers\<close>

lemma foldl_js_add_Num:
  "foldl js_add (Num a) (map (\<lambda>x. Num (f x)) xs) = Num (a + sum_list (map f xs))"
  by (induction xs arbitrary: a) (simp_all add: add.assoc)

lemma reduce_js_add_Num:
  "xs \<noteq> [] \<Longrightarrow> reduce js_add (map (\<lambda>x. Num (f x)) xs) = Inr (Num (sum_list (map f xs)))"
  by (cases xs) (simp_all add: reduce_def foldl_js_add_Num)

lemma slice_last_map: "slice_last p (map f xs) = map f (slice_last p xs)"
  by (simp add: slice_last_def drop_map)

lemma slice_last_nonempty: "xs \<noteq> [] \<Longrightarrow> 0 < p \<Longrightarrow> slice_last p xs \<noteq> []"
  by (cases xs) (auto simp: slice_last_def)


subsection \<open>Too-short input\<close>

lemma js_sub_Undefined: "js_sub v Undefined = NaN"
  by (cases v) simp_all

lemma reduce_nonempty: "xs \<noteq> [] \<Longrightarrow> \<exists>s. reduce f xs = Inr s"
  by (cases xs) (simp_all add: reduce_def)

lemma calculateEMA_returns:
  assumes "prices \<noteq> []" "0 < period"
  shows "\<exists>e. calculateEMA prices period = Inr e"
proof (cases "length prices < period")
  case True
  then show ?thesis by (simp add: calculateEMA_def)
next
  case False
  from slice_last_nonempty [OF assms] obtain s where
    "reduce js_add (slice_last period prices) = Inr s"
    using reduce_nonempty by blast
  with False show ?thesis by (simp add: calculateEMA_def Let_def)
qed

lemma calculateMACD_short:
  assumes "candles \<noteq> []" "length candles < 26"
  shows "\<exists>v. calculateMACD candles
              = Inr \<lparr>macd_value = v, macd_signal = Undefined, macd_histogram = NaN\<rparr>"
proof -
  let ?prices = "map (\<lambda>c. Num (close c)) candles"
  have ne: "?prices \<noteq> []" using assms(1) by simp
  from calculateEMA_returns [OF ne, of 12] obtain e12 where e12: "calculateEMA ?prices 12 = Inr e12"
    by auto
  from calculateEMA_returns [OF ne, of 26] obtain e26 where e26: "calculateEMA ?prices 26 = Inr e26"
    by auto
  have hist: "[26 ..< length ?prices + 1] = []" using assms(2) by simp
  have sig: "calculateEMA [] 9 = Inr Undefined" by (simp add: calculateEMA_def)
  show ?thesis
    unfolding calculateMACD_def Let_def e12 e26 hist
    by (simp add: sig js_sub_Undefined)
qed

text \<open>
  C1 asks that every calculator returns a numeric default on every sequence, the empty
  and the shorter-than-period ones included, and never raises or yields \<open>undefined\<close> or
  \<open>NaN\<close>. The code does not: \<^verbatim>\<open>calculateMACD\<close> has no length guard, and on every
  non-empty sequence of fewer than 26 candles its signal is \<open>undefined\<close> and its
  histogram \<open>NaN\<close>; \<^verbatim>\<open>calculateSMA\<close> raises on the empty array; \<^verbatim>\<open>calculateEMA\<close>
  returns \<open>undefined\<close> on it; \<^verbatim>\<open>calculateVolumeIndicator\<close> returns \<open>NaN\<close> on ten candles
  of volume 0.
\<close>

theorem C1_short_input_failures:
  "(candles \<noteq> [] \<and> length candles < 26 \<longrightarrow>
      (\<exists>v. calculateMACD candles
             = Inr \<lparr>macd_value = v, macd_signal = Undefined, macd_histogram = NaN\<rparr>))
   \<and> calculateSMA [] period = Inl TypeError
   \<and> calculateEMA [] (Suc period) = Inr Undefined
   \<and> calculateVolumeIndicator
        (replicate 10 \<lparr>timestamp = 0, open' = 100, high = 100, low = 100, close = 100, volume = 0\<rparr>)
      = Inr NaN"
proof -
  have "calculateVolumeIndicator
        (replicate 10 \<lparr>timestamp = 0, open' = 100, high = 100, low = 100, close = 100, volume = 0\<rparr>)
      = Inr NaN"
    by code_simp
  moreover have "calculateSMA [] period = Inl TypeError"
    by (simp add: calculateSMA_def reduce_def slice_last_def)
  moreover have "calculateEMA [] (Suc period) = Inr Undefined"
    by (simp add: calculateEMA_def)
  ultimately show ?thesis using calculateMACD_short [of candles] by blast
qed

theorem C1_short_input_failures_witness:
  "[\<lparr>timestamp = 0, open' = 100, high = 100, low = 100, close = 100, volume = 1000\<rparr>] \<noteq> []
   \<and> length [\<lparr>timestamp = 0, open' = 100, high = 100, low = 100, close = 100, volume = 1000\<rparr>] < 26
   \<and> calculateMACD [\<lparr>timestamp = 0, open' = 100, high = 100, low = 100, close = 100, volume = 1000\<rparr>]
       = Inr \<lparr>macd_value = Num 0, macd_signal = Undefined, macd_histogram = NaN\<rparr>"
proof -
  let ?cs = "[\<lparr>timestamp = 0, open' = 100, high = 100, low = 100, close = 100, volume = 1000\<rparr>]"
  have h: "?cs \<noteq> [] \<and> length ?cs < 26" by simp
  have e: "calculateMACD ?cs
           = Inr \<lparr>macd_value = Num 0, macd_signal = Undefined, macd_histogram = NaN\<rparr>"
    by code_simp
  from C1_short_input_failures [of ?cs 20] h obtain v where
    r: "calculateMACD ?cs = Inr \<lparr>macd_value = v, macd_signal = Undefined, macd_histogram = NaN\<rparr>"
    by blast
  with e have "v = Num 0" by simp
  with r h show ?thesis by blast
qed

subsection \<open>Bollinger Bands\<close>





subsection \<open>ADX and the directional indices\<close>

























subsection \<open>Stochastic oscillator\<close>

lemma Math_max_Num: "xs \<noteq> [] \<Longrightarrow> Math_max xs = Num (Max (set xs))"
proof (cases xs)
  case Nil
  assume "xs \<noteq> []"
  with Nil show ?thesis by simp
next
  case (Cons a rest)
  then show ?thesis using Max.set_eq_fold [of a rest] by (simp add: Math_max_def)
qed

lemma Math_min_Num: "xs \<noteq> [] \<Longrightarrow> Math_min xs = Num (Min (set xs))"
proof (cases xs)
  case Nil
  assume "xs \<noteq> []"
  with Nil show ?thesis by simp
next
  case (Cons a rest)
  then show ?thesis using Min.set_eq_fold [of a rest] by (simp add: Math_min_def)
qed

lemma fold_push:
  "fold (\<lambda>i acc. if P i then acc @ [f i] else acc) js acc = acc @ map f (filter P js)"
  by (induction js arbitrary: acc) simp_all

lemma slice_window:
  "14 \<le> i + 1 \<Longrightarrow> slice (i + 1 - 14) (i + 1) candles = window_ending candles 14 i"
  by (simp add: slice_def window_ending_def)

lemma window_length:
  "i < length candles \<Longrightarrow> 14 \<le> i + 1 \<Longrightarrow> length (window_ending candles 14 i) = 14"
  by (simp add: window_ending_def)

lemma slice_short:
  "i < length candles \<Longrightarrow> \<not> 14 \<le> i + 1 \<Longrightarrow> length (slice (i + 1 - 14) (i + 1) candles) < 14"
  by (simp add: slice_def)

lemma k_js:
  assumes "w \<noteq> []"
  shows "(if \<not> js_strict_eq (Math_max (map high w)) (Math_min (map low w))
          then js_mul (js_div (js_sub (Num c) (Math_min (map low w)))
                              (js_sub (Math_max (map high w)) (Math_min (map low w)))) (Num 100)
          else Num 50)
         = Num (if Max (set (map high w)) = Min (set (map low w)) then 50
                else (c - Min (set (map low w))) / (Max (set (map high w)) - Min (set (map low w))) * 100)"
  using assms by (simp add: Math_max_Num Math_min_Num)

lemma k_push_js:
  assumes "w \<noteq> []"
  shows "(if \<not> js_strict_eq (Math_max (map high w)) (Math_min (map low w))
          then acc @ [js_mul (js_div (js_sub (Num c) (Math_min (map low w)))
                              (js_sub (Math_max (map high w)) (Math_min (map low w)))) (Num 100)]
          else acc)
         = (if Max (set (map high w)) \<noteq> Min (set (map low w))
            then acc @ [Num ((c - Min (set (map low w))) / (Max (set (map high w)) - Min (set (map low w))) * 100)]
            else acc)"
  using assms by (simp add: Math_max_Num Math_min_Num)

lemma stoch_step_eq:
  assumes "i < length candles"
  shows "stoch_step candles 14 i acc
         = (if 14 \<le> i + 1 \<and> \<not> zero_range candles 14 i
            then acc @ [Num (percentK candles 14 i)] else acc)"
proof (cases "14 \<le> i + 1")
  case True
  have len: "length (window_ending candles 14 i) = 14" using assms True by (rule window_length)
  then have ne: "window_ending candles 14 i \<noteq> []" by auto
  show ?thesis
    unfolding stoch_step_def Let_def slice_window [OF True] len k_push_js [OF ne]
    using True by (simp add: zero_range_def percentK_def)
next
  case False
  with slice_short [OF assms False] show ?thesis by (simp add: stoch_step_def Let_def)
qed

lemma stoch_kValues:
  "fold (stoch_step candles 14) [length candles - 14 - 3 ..< length candles] []
   = map (\<lambda>i. Num (percentK candles 14 i))
       (filter (\<lambda>i. 14 \<le> i + 1 \<and> \<not> zero_range candles 14 i)
          [length candles - 14 - 3 ..< length candles])"
proof -
  have "fold (stoch_step candles 14) [length candles - 14 - 3 ..< length candles] []
    = fold (\<lambda>i acc. if 14 \<le> i + 1 \<and> \<not> zero_range candles 14 i
                      then acc @ [Num (percentK candles 14 i)] else acc)
        [length candles - 14 - 3 ..< length candles] []"
  proof (rule fold_cong)
    fix i assume "i \<in> set [length candles - 14 - 3 ..< length candles]"
    then have i: "i < length candles" by simp
    show "stoch_step candles 14 i
          = (\<lambda>acc. if 14 \<le> i + 1 \<and> \<not> zero_range candles 14 i
                      then acc @ [Num (percentK candles 14 i)] else acc)"
      by (rule ext) (rule stoch_step_eq [OF i])
  qed simp_all
  then show ?thesis by (simp only: fold_push append_Nil)
qed

lemma slice_last_window:
  "14 \<le> length candles \<Longrightarrow> slice_last 14 candles = window_ending candles 14 (length candles - 1)"
  by (simp add: slice_last_def window_ending_def)

lemma stoch_d_js:
  "(if length (map (\<lambda>i. Num (f i)) ends) \<ge> 3 then
      (case reduce js_add (slice_last 3 (map (\<lambda>i. Num (f i)) ends)) of
         Inl e \<Rightarrow> Inl e
       | Inr s \<Rightarrow> Inr \<lparr>stoch_k = kk, stoch_d = js_div s (Num (real 3))\<rparr>)
    else Inr \<lparr>stoch_k = kk, stoch_d = Num d0\<rparr>)
   = Inr \<lparr>stoch_k = kk,
          stoch_d = Num (if 3 \<le> length (map f ends)
                         then sum_list (slice_last 3 (map f ends)) / real 3 else d0)\<rparr>"
proof (cases "3 \<le> length ends")
  case True
  then have "ends \<noteq> []" by auto
  then have sne: "slice_last 3 ends \<noteq> []" by (intro slice_last_nonempty) simp_all
  from True show ?thesis
    by (simp add: slice_last_map reduce_js_add_Num [OF sne])
next
  case False
  then show ?thesis by simp
qed

lemma calculateStochastic_full:
  assumes n: "14 \<le> length candles"
  shows "calculateStochastic candles 14 3 =
         Inr \<lparr>stoch_k = Num (percentK candles 14 (length candles - 1)),
              stoch_d = Num (percentD_sampled candles 14 3)\<rparr>"
proof -
  let ?w = "window_ending candles 14 (length candles - 1)"
  from n have ne: "candles \<noteq> []" by auto
  from n have nl: "\<not> length candles < 14" by simp
  have "length ?w = 14" using n by (intro window_length) auto
  then have wne: "?w \<noteq> []" by auto
  have k: "(if \<not> js_strict_eq (Math_max (map high ?w)) (Math_min (map low ?w))
          then js_mul (js_div (js_sub (Num (close (candles ! (length candles - 1)))) (Math_min (map low ?w)))
                              (js_sub (Math_max (map high ?w)) (Math_min (map low ?w)))) (Num 100)
          else Num 50) = Num (percentK candles 14 (length candles - 1))"
    unfolding k_js [OF wne] by (simp add: percentK_def)
  have "calculateStochastic candles 14 3 =
        Inr \<lparr>stoch_k = Num (percentK candles 14 (length candles - 1)),
             stoch_d = Num (if 3 \<le> length (map (percentK candles 14)
                                 (filter (\<lambda>i. 14 \<le> i + 1 \<and> \<not> zero_range candles 14 i)
                                    [length candles - 14 - 3 ..< length candles]))
                            then sum_list (slice_last 3 (map (percentK candles 14)
                                 (filter (\<lambda>i. 14 \<le> i + 1 \<and> \<not> zero_range candles 14 i)
                                    [length candles - 14 - 3 ..< length candles]))) / real 3
                            else percentK candles 14 (length candles - 1))\<rparr>"
    unfolding calculateStochastic_def Let_def if_not_P [OF nl] if_not_P [OF ne] stoch_kValues
      slice_last_window [OF n] k stoch_d_js ..
  then show ?thesis by (simp only: percentD_sampled_def Let_def)
qed

text \<open>
  C4, as the code has it. \<^verbatim>\<open>calculateStochastic\<close> with \<open>kPeriod = 14\<close>, \<open>dPeriod = 3\<close>
  returns \<open>{k: 50, d: 50}\<close> for every sequence of fewer than 14 candles. With at least
  14 candles, \<open>%K\<close> is the position of the latest close in the high/low range of the
  trailing 14 candles, and 50 whenever that range is zero; \<open>%D\<close> is the mean of the most
  recent 3 values of \<open>%K\<close> over the full windows ending at one of the last 17 candles,
  the zero-range windows being skipped, and \<open>%D = %K\<close> when fewer than 3 such values
  are available.
\<close>

theorem C4_calculateStochastic:
  "(length candles < 14 \<longrightarrow>
      calculateStochastic candles 14 3 = Inr \<lparr>stoch_k = Num 50, stoch_d = Num 50\<rparr>)
   \<and> (14 \<le> length candles \<longrightarrow>
        calculateStochastic candles 14 3 =
          Inr \<lparr>stoch_k = Num (percentK candles 14 (length candles - 1)),
               stoch_d = Num (percentD_sampled candles 14 3)\<rparr>)
   \<and> (14 \<le> length candles \<and> zero_range candles 14 (length candles - 1) \<longrightarrow>
        (\<exists>d. calculateStochastic candles 14 3 = Inr \<lparr>stoch_k = Num 50, stoch_d = d\<rparr>))"
  using calculateStochastic_full [of candles]
  by (simp add: calculateStochastic_def percentK_def zero_range_def)

theorem C4_calculateStochastic_witness:
  "length (replicate 5 \<lparr>timestamp = 0, open' = 100, high = 101, low = 99, close = 100, volume = 1000\<rparr>) < 14
   \<and> calculateStochastic
         (replicate 5 \<lparr>timestamp = 0, open' = 100, high = 101, low = 99, close = 100, volume = 1000\<rparr>) 14 3
       = Inr \<lparr>stoch_k = Num 50, stoch_d = Num 50\<rparr>
   \<and> 14 \<le> length (map (\<lambda>p. \<lparr>timestamp = 0, open' = p, high = p + 1, low = p - 1, close = p, volume = 1000\<rparr>)
                      [100, 101, 102, 103, 104, 105, 106, 107, 108, 109, 110, 111, 112, 113, 114, 113, 112])
   \<and> calculateStochastic
         (map (\<lambda>p. \<lparr>timestamp = 0, open' = p, high = p + 1, low = p - 1, close = p, volume = 1000\<rparr>)
            [100, 101, 102, 103, 104, 105, 106, 107, 108, 109, 110, 111, 112, 113, 114, 113, 112]) 14 3
       = Inr \<lparr>stoch_k = Num (1000 / 13), stoch_d = Num (69880 / 819)\<rparr>
   \<and> 14 \<le> length (replicate 14 \<lparr>timestamp = 0, open' = 100, high = 100, low = 100, close = 100, volume = 1000\<rparr>)
   \<and> zero_range (replicate 14 \<lparr>timestamp = 0, open' = 100, high = 100, low = 100, close = 100, volume = 1000\<rparr>) 14
        (length (replicate 14 \<lparr>timestamp = 0, open' = 100, high = 100, low = 100, close = 100, volume = 1000\<rparr>) - 1)
   \<and> calculateStochastic
         (replicate 14 \<lparr>timestamp = 0, open' = 100, high = 100, low = 100, close = 100, volume = 1000\<rparr>) 14 3
       = Inr \<lparr>stoch_k = Num 50, stoch_d = Num 50\<rparr>"
proof -
  let ?few = "replicate 5 \<lparr>timestamp = 0, open' = 100, high = 101, low = 99, close = 100, volume = 1000\<rparr>"
  let ?cs = "map (\<lambda>p. \<lparr>timestamp = 0, open' = p, high = p + 1, low = p - 1, close = p, volume = 1000\<rparr>)
               [100, 101, 102, 103, 104, 105, 106, 107, 108, 109, 110, 111, 112, 113, 114, 113, 112]"
  let ?flat = "replicate 14 \<lparr>timestamp = 0, open' = 100, high = 100, low = 100, close = 100, volume = 1000\<rparr>"
  have h1: "length ?few < 14" by simp
  have h2: "14 \<le> length ?cs" by simp
  have h3: "14 \<le> length ?flat \<and> zero_range ?flat 14 (length ?flat - 1)" by code_simp
  have e2: "percentK ?cs 14 (length ?cs - 1) = 1000 / 13 \<and> percentD_sampled ?cs 14 3 = 69880 / 819"
    by code_simp
  have e3: "percentD_sampled ?flat 14 3 = percentK ?flat 14 (length ?flat - 1)"
    by code_simp
  from C4_calculateStochastic [of ?few] h1 have 1:
    "calculateStochastic ?few 14 3 = Inr \<lparr>stoch_k = Num 50, stoch_d = Num 50\<rparr>"
    by blast
  from C4_calculateStochastic [of ?cs] h2 have
    "calculateStochastic ?cs 14 3
     = Inr \<lparr>stoch_k = Num (percentK ?cs 14 (length ?cs - 1)), stoch_d = Num (percentD_sampled ?cs 14 3)\<rparr>"
    by blast
  with e2 have 2:
    "calculateStochastic ?cs 14 3 = Inr \<lparr>stoch_k = Num (1000 / 13), stoch_d = Num (69880 / 819)\<rparr>"
    by (simp only:)
  from C4_calculateStochastic [of ?flat] h3 have
    "calculateStochastic ?flat 14 3
     = Inr \<lparr>stoch_k = Num (percentK ?flat 14 (length ?flat - 1)), stoch_d = Num (percentD_sampled ?flat 14 3)\<rparr>
     \<and> (\<exists>d. calculateStochastic ?flat 14 3 = Inr \<lparr>stoch_k = Num 50, stoch_d = d\<rparr>)"
    by blast
  with e3 have 3:
    "calculateStochastic ?flat 14 3 = Inr \<lparr>stoch_k = Num 50, stoch_d = Num 50\<rparr>"
    by auto
  from h1 h2 h3 1 2 3 show ?thesis by blast
qed

text \<open>
  C4 as stated fails, since a zero-range window contributes no value, not the value 50.
  Two candles with high 200 and low 100 followed by fourteen flat candles at 100 have
  three full windows: two with \<open>%K = 0\<close> and the last with range zero. The code collects
  two values and falls back to \<open>%D = %K = 50\<close>; the mean of \<open>0, 0, 50\<close> is \<open>50 / 3\<close>.
\<close>

theorem C4_zero_range_window_counterexample:
  "calculateStochastic
     (replicate 2 \<lparr>timestamp = 0, open' = 100, high = 200, low = 100, close = 100, volume = 1000\<rparr>
      @ replicate 14 \<lparr>timestamp = 0, open' = 100, high = 100, low = 100, close = 100, volume = 1000\<rparr>)
     14 3 = Inr \<lparr>stoch_k = Num 50, stoch_d = Num 50\<rparr>
   \<and> percentD_claimed
     (replicate 2 \<lparr>timestamp = 0, open' = 100, high = 200, low = 100, close = 100, volume = 1000\<rparr>
      @ replicate 14 \<lparr>timestamp = 0, open' = 100, high = 100, low = 100, close = 100, volume = 1000\<rparr>)
     14 3 = 50 / 3"
  by code_simp

subsection \<open>Trend strength\<close>









end
